theory Spec2Isabelle
  imports Complex_Main "HOL-Library.Option_ord" "HOL-Library.Multiset"
begin

section \<open>Values of the approvals service\<close>

text \<open>
  The service of \<^verbatim>\<open>main.py\<close> keeps approval items in the collection
  \<^verbatim>\<open>approvalitem\<close> of a document store. A clock reading
  (\<^verbatim>\<open>datetime.now(timezone.utc)\<close>) is a natural number of ticks; an amount is a real number.
\<close>

type_synonym datetime = nat

text \<open>
  A \<^verbatim>\<open>bson.ObjectId\<close> wraps a byte string, twelve bytes when the store generates it.
  The value is kept as the lower-case hexadecimal rendering of its bytes, two digits a byte,
  which is what \<^verbatim>\<open>str\<close> returns; two identifiers are equal when their bytes are.
\<close>

datatype ObjectId = ObjectId (hex: string)

definition is_hex_digit :: "char \<Rightarrow> bool" where
  "is_hex_digit c = (c \<in> set ''0123456789abcdefABCDEF'')"

definition lower_hex :: "char \<Rightarrow> char" where
  "lower_hex c =
     (if c = CHR ''A'' then CHR ''a''
      else if c = CHR ''B'' then CHR ''b''
      else if c = CHR ''C'' then CHR ''c''
      else if c = CHR ''D'' then CHR ''d''
      else if c = CHR ''E'' then CHR ''e''
      else if c = CHR ''F'' then CHR ''f''
      else c)"

text \<open>The ASCII whitespace: tab, line feed, vertical tab, form feed, carriage return, space.\<close>

definition is_space :: "char \<Rightarrow> bool" where
  "is_space c = (c \<in> set [CHR 0x09, CHR 0x0A, CHR 0x0B, CHR 0x0C, CHR 0x0D, CHR 0x20])"

text \<open>
  \<^verbatim>\<open>bytes.fromhex\<close>: whitespace before a byte and at the end is skipped, a byte is two
  adjacent hexadecimal digits, and anything else raises \<^verbatim>\<open>ValueError\<close> (here
  \<open>None\<close>). The result is given as the lower-case digits of the bytes read.
\<close>

fun fromhex :: "string \<Rightarrow> string option" where
  "fromhex [] = Some []"
| "fromhex [c] = (if is_space c then Some [] else None)"
| "fromhex (c # c' # cs) =
     (if is_space c then fromhex (c' # cs)
      else if is_hex_digit c \<and> is_hex_digit c'
      then map_option (\<lambda>r. lower_hex c # lower_hex c' # r) (fromhex cs)
      else None)"

text \<open>
  \<^verbatim>\<open>ObjectId(id_str)\<close> on a string: a string of 24 characters is handed to
  \<^verbatim>\<open>bytes.fromhex\<close>; a string of another length, or one that
  \<^verbatim>\<open>bytes.fromhex\<close> refuses, raises \<^verbatim>\<open>InvalidId\<close> (here \<open>None\<close>). So 24
  hexadecimal digits are accepted, and so are 24 characters of which some are whitespace
  between the bytes: the identifier has fewer than twelve bytes then. A character beyond
  ASCII is neither a digit nor whitespace, so a string that holds one is refused whichever
  way its length is counted.
\<close>

definition parse_ObjectId :: "string \<Rightarrow> ObjectId option" where
  "parse_ObjectId s = (if length s = 24 then map_option ObjectId (fromhex s) else None)"

text \<open>
  What a request can end with: an \<^verbatim>\<open>HTTPException\<close> raised by a handler, the
  framework's refusal of a request that violates the declared schema (status 422), or an
  exception nobody catches (status 500).
\<close>

datatype error = HTTPException nat string | RequestValidationError | Unhandled string

fun status_code :: "error \<Rightarrow> nat" where
  "status_code (HTTPException c detail) = c"
| "status_code RequestValidationError = 422"
| "status_code (Unhandled msg) = 500"

text \<open>The status of a response: the route's success status, or the error's.\<close>

definition response_status :: "nat \<Rightarrow> error + 'a \<Rightarrow> nat" where
  "response_status ok r = (case r of Inl e \<Rightarrow> status_code e | Inr v \<Rightarrow> ok)"

definition oid :: "string \<Rightarrow> error + ObjectId" where
  "oid id_str =
     (case parse_ObjectId id_str of
        Some i \<Rightarrow> Inr i
      | None \<Rightarrow> Inl (HTTPException 400 ''Invalid ID format''))"

section \<open>Documents and their wire format\<close>

text \<open>
  A Python \<^verbatim>\<open>float\<close>: a finite number (taken as the real number it denotes), one of the
  two infinities, or not-a-number. \<open>ge_zero f\<close> is \<^verbatim>\<open>f >= 0\<close>, which not-a-number fails.
\<close>

datatype pyfloat = Finite real | PosInf | NegInf | NaN

fun ge_zero :: "pyfloat \<Rightarrow> bool" where
  "ge_zero (Finite r) = (0 \<le> r)"
| "ge_zero PosInf = True"
| "ge_zero NegInf = False"
| "ge_zero NaN = False"

text \<open>
  A stored document is a dictionary over the keys the service writes. A key is absent
  (\<open>Missing\<close>), present with the value \<^verbatim>\<open>None\<close> (\<open>Null\<close>), or present with a value:
  \<^verbatim>\<open>doc.get(k, default)\<close> tells the first two apart.
\<close>

datatype 'a field = Missing | Null | Val 'a

record doc =
  doc_id :: "ObjectId field"
  doc_title :: "string field"
  doc_description :: "string field"
  doc_requester :: "string field"
  doc_amount :: "pyfloat field"
  doc_status :: "string field"
  doc_created_at :: "datetime field"
  doc_updated_at :: "datetime field"

text \<open>The empty dictionary \<^verbatim>\<open>{}\<close>.\<close>

definition empty_doc :: doc where
  "empty_doc = \<lparr>doc_id = Missing, doc_title = Missing, doc_description = Missing,
     doc_requester = Missing, doc_amount = Missing, doc_status = Missing,
     doc_created_at = Missing, doc_updated_at = Missing\<rparr>"

text \<open>\<^verbatim>\<open>d.get(k)\<close> and \<^verbatim>\<open>d.get(k, default)\<close>; \<open>None\<close> is Python's \<^verbatim>\<open>None\<close>.\<close>

definition dict_get :: "'a field \<Rightarrow> 'a option" where
  "dict_get f = (case f of Missing \<Rightarrow> None | Null \<Rightarrow> None | Val v \<Rightarrow> Some v)"

definition dict_get_default :: "'a field \<Rightarrow> 'a \<Rightarrow> 'a option" where
  "dict_get_default f dflt = (case f of Missing \<Rightarrow> Some dflt | Null \<Rightarrow> None | Val v \<Rightarrow> Some v)"

text \<open>\<^verbatim>\<open>str(x)\<close> where \<open>x\<close> is an identifier or \<^verbatim>\<open>None\<close>.\<close>

definition py_str :: "ObjectId option \<Rightarrow> string" where
  "py_str x = (case x of None \<Rightarrow> ''None'' | Some i \<Rightarrow> hex i)"

text \<open>The values of a response body, and a response dictionary with its keys in order.\<close>

datatype json = JNull | JStr string | JInt int | JNum pyfloat | JTime datetime

type_synonym wire = "(string \<times> json) list"

definition to_json :: "('a \<Rightarrow> json) \<Rightarrow> 'a option \<Rightarrow> json" where
  "to_json conv x = (case x of None \<Rightarrow> JNull | Some v \<Rightarrow> conv v)"

text \<open>
  \<^verbatim>\<open>serialize_item\<close>: a falsy argument (\<^verbatim>\<open>None\<close> or the empty dictionary) gives
  \<^verbatim>\<open>None\<close>, anything else the dictionary of eight keys.
\<close>

definition serialize_item :: "doc option \<Rightarrow> wire option" where
  "serialize_item d =
     (case d of
        None \<Rightarrow> None
      | Some doc \<Rightarrow>
          if doc = empty_doc then None
          else Some
            [(''id'', JStr (py_str (dict_get (doc_id doc)))),
             (''title'', to_json JStr (dict_get (doc_title doc))),
             (''description'', to_json JStr (dict_get (doc_description doc))),
             (''requester'', to_json JStr (dict_get (doc_requester doc))),
             (''amount'', to_json JNum (dict_get (doc_amount doc))),
             (''status'', to_json JStr (dict_get_default (doc_status doc) ''pending'')),
             (''created_at'', to_json JTime (dict_get (doc_created_at doc))),
             (''updated_at'', to_json JTime (dict_get (doc_updated_at doc)))])"

section \<open>The document store\<close>

text \<open>
  A text that holds characters beyond ASCII, or that is cut by characters
  (\<^verbatim>\<open>str(e)[:50]\<close>), is a list of code points; \<open>ascii\<close> gives the code points of an
  ASCII text.
\<close>

type_synonym pystr = "nat list"

definition ascii :: "string \<Rightarrow> pystr" where
  "ascii s = map of_char s"

text \<open>
  The module-level \<^verbatim>\<open>db\<close> is \<^verbatim>\<open>None\<close> or a database handle. Of the database the
  service uses its name, the outcome of \<^verbatim>\<open>list_collection_names()\<close> (the names, or
  the text of the exception it raises, as code points) and the documents of the collection
  \<^verbatim>\<open>approvalitem\<close>, in insertion order.
\<close>

record Database =
  name :: string
  list_collection_names :: "pystr + string list"
  approvalitem :: "doc list"

type_synonym db = "Database option"

text \<open>\<^verbatim>\<open>find_one({"_id": i})\<close>: the first document with that identifier.\<close>

definition find_one :: "doc list \<Rightarrow> ObjectId \<Rightarrow> doc option" where
  "find_one docs i = find (\<lambda>d. doc_id d = Val i) docs"

text \<open>
  \<^verbatim>\<open>update_one({"_id": i}, {"$set": ...})\<close>: the first document with that identifier
  is updated; the result carries \<^verbatim>\<open>matched_count\<close>.
\<close>

fun update_one :: "ObjectId \<Rightarrow> (doc \<Rightarrow> doc) \<Rightarrow> doc list \<Rightarrow> nat \<times> doc list" where
  "update_one i f [] = (0, [])"
| "update_one i f (d # ds) =
     (if doc_id d = Val i then (1, f d # ds)
      else (case update_one i f ds of (n, ds') \<Rightarrow> (n, d # ds')))"



text \<open>
  \<^verbatim>\<open>.sort("created_at", -1)\<close>: descending by \<^verbatim>\<open>created_at\<close>; a document without a
  timestamp compares below every timestamp (\<open>None < Some t\<close>); documents of equal
  timestamp stay in the order of the collection.
\<close>

definition created_key :: "doc \<Rightarrow> datetime option" where
  "created_key d = dict_get (doc_created_at d)"

fun insort_created_desc :: "doc \<Rightarrow> doc list \<Rightarrow> doc list" where
  "insort_created_desc x [] = [x]"
| "insort_created_desc x (y # ys) =
     (if created_key y \<le> created_key x then x # y # ys
      else y # insort_created_desc x ys)"

definition sort_created_desc :: "doc list \<Rightarrow> doc list" where
  "sort_created_desc docs = foldr insort_created_desc docs []"

definition count_documents :: "doc list \<Rightarrow> nat" where
  "count_documents docs = length docs"

text \<open>
  Modelled from the spec: \<^verbatim>\<open>create_document\<close> of the module \<^verbatim>\<open>database\<close>, which is
  not among the sources. The spec: "\<^verbatim>\<open>insert(collection, record) -> generated_id\<close>:
  inserts a record, returns its new identifier. Fails with \<^verbatim>\<open>StoreUnavailable\<close> if no
  live connection exists"; the identifier is "generated by the store on creation", "unique and
  assigned exactly once", and the timestamps are "filled by the store on insert". The
  identifier the store generates and the clock reading are inputs \<open>new_id\<close> and \<open>now\<close>;
  identifiers being unique, one that is already in the collection is refused.
\<close>

definition create_document :: "db \<Rightarrow> ObjectId \<Rightarrow> datetime \<Rightarrow> doc \<Rightarrow> (error + ObjectId) \<times> db" where
  "create_document db new_id now data =
     (case db of
        None \<Rightarrow> (Inl (Unhandled ''Database not available''), db)
      | Some d \<Rightarrow>
          if Val new_id \<in> set (map doc_id (approvalitem d))
          then (Inl (Unhandled ''duplicate key''), db)
          else (Inr new_id,
                Some (d\<lparr>approvalitem := approvalitem d @
                  [data\<lparr>doc_id := Val new_id, doc_created_at := Val now,
                        doc_updated_at := Val now\<rparr>]\<rparr>)))"

section \<open>Creating an item\<close>

text \<open>
  The request body is a JSON object, decoded with \<^verbatim>\<open>json.loads\<close>, so a number too
  large for a float is an infinity. Under a key whose field is a string there is nothing,
  \<^verbatim>\<open>null\<close>, a string, or another value, which the type refuses. \<open>SOther renders\<close>
  tells whether that value can be rendered as JSON: it cannot when it holds an infinite
  float or not-a-number (\<^verbatim>\<open>[1e400]\<close>).
\<close>

datatype str_input = SMissing | SNull | SStr string | SOther bool

text \<open>
  Under the key \<^verbatim>\<open>amount\<close> there is nothing, \<^verbatim>\<open>null\<close>, a JSON number with its
  value as a float (\<open>FNumber\<close>), a value that is no number and that the validation library
  converts to a float, such as the string \<^verbatim>\<open>"12.5"\<close> (\<open>FConverted\<close>), or a value the
  type refuses (\<open>FOther renders\<close>), such as a list, or a whole number too large for a
  float.
\<close>

datatype float_input = FMissing | FNull | FNumber pyfloat | FConverted pyfloat | FOther bool

text \<open>
  \<open>b_status\<close> is a \<^verbatim>\<open>status\<close> key the caller may add; \<open>b_others_render\<close> tells
  whether the values under further keys that the schema does not declare can be rendered as
  JSON.
\<close>

record body =
  b_title :: str_input
  b_description :: str_input
  b_requester :: str_input
  b_amount :: float_input
  b_status :: "string option"
  b_others_render :: bool

fun is_finite :: "pyfloat \<Rightarrow> bool" where
  "is_finite (Finite r) = True"
| "is_finite PosInf = False"
| "is_finite NegInf = False"
| "is_finite NaN = False"

fun str_renders :: "str_input \<Rightarrow> bool" where
  "str_renders (SOther renders) = renders"
| "str_renders x = True"

fun float_renders :: "float_input \<Rightarrow> bool" where
  "float_renders (FNumber f) = is_finite f"
| "float_renders (FOther renders) = renders"
| "float_renders x = True"

text \<open>Whether the whole body can be rendered as JSON.\<close>

definition body_renders :: "body \<Rightarrow> bool" where
  "body_renders b =
     (str_renders (b_title b) \<and> str_renders (b_description b) \<and> str_renders (b_requester b) \<and>
      float_renders (b_amount b) \<and> b_others_render b)"

record ApprovalItemIn =
  title :: string
  description :: "string option"
  requester :: string
  amount :: "pyfloat option"

text \<open>
  The fields of \<^verbatim>\<open>ApprovalItemIn\<close>. A field gives its value, or its validation error.
  An error carries the input that was refused, and of this input the model keeps whether it
  can be rendered as JSON: for a required key that is missing the input is the whole body
  (\<open>whole\<close>), otherwise it is the value under the key. A required \<^verbatim>\<open>str\<close>
  (\<^verbatim>\<open>Field(...)\<close>) must be there, and no length is asked of it; an \<^verbatim>\<open>Optional\<close>
  field with default \<^verbatim>\<open>None\<close> may be missing or null; \<^verbatim>\<open>amount\<close> has \<^verbatim>\<open>ge=0\<close>.
\<close>

fun required_str :: "bool \<Rightarrow> str_input \<Rightarrow> bool list + string" where
  "required_str whole SMissing = Inl [whole]"
| "required_str whole SNull = Inl [True]"
| "required_str whole (SStr v) = Inr v"
| "required_str whole (SOther renders) = Inl [renders]"

fun optional_str :: "str_input \<Rightarrow> bool list + string option" where
  "optional_str SMissing = Inr None"
| "optional_str SNull = Inr None"
| "optional_str (SStr v) = Inr (Some v)"
| "optional_str (SOther renders) = Inl [renders]"

fun optional_float_ge0 :: "float_input \<Rightarrow> bool list + pyfloat option" where
  "optional_float_ge0 FMissing = Inr None"
| "optional_float_ge0 FNull = Inr None"
| "optional_float_ge0 (FNumber f) = (if ge_zero f then Inr (Some f) else Inl [is_finite f])"
| "optional_float_ge0 (FConverted f) = (if ge_zero f then Inr (Some f) else Inl [True])"
| "optional_float_ge0 (FOther renders) = Inl [renders]"

definition errors_of :: "bool list + 'a \<Rightarrow> bool list" where
  "errors_of x = (case x of Inl es \<Rightarrow> es | Inr v \<Rightarrow> [])"

text \<open>
  Validation against \<^verbatim>\<open>ApprovalItemIn\<close>: the item when every field gives its value,
  otherwise the errors of all fields; keys the schema does not declare are dropped.
\<close>

definition validate_body :: "body \<Rightarrow> bool list + ApprovalItemIn" where
  "validate_body b =
     (let t = required_str (body_renders b) (b_title b);
          descr = optional_str (b_description b);
          r = required_str (body_renders b) (b_requester b);
          a = optional_float_ge0 (b_amount b)
      in case (t, descr, r, a) of
           (Inr t', Inr descr', Inr r', Inr a') \<Rightarrow>
             Inr \<lparr>title = t', description = descr', requester = r', amount = a'\<rparr>
         | _ \<Rightarrow> Inl (errors_of t @ errors_of descr @ errors_of r @ errors_of a))"

text \<open>
  A body that fails validation is answered with status 422 and a JSON body that lists the
  errors, each with the input that was refused. This body is rendered with
  \<^verbatim>\<open>allow_nan=False\<close> too: when one of the inputs cannot be rendered, the rendering
  raises and the answer is 500.
\<close>

definition validation_response :: "bool list \<Rightarrow> error" where
  "validation_response inputs =
     (if list_all (\<lambda>renders. renders) inputs then RequestValidationError
      else Unhandled ''Out of range float values are not JSON compliant'')"

text \<open>The value under a key, when there is one that the type of the field takes.\<close>

fun str_value :: "str_input \<Rightarrow> string option" where
  "str_value (SStr v) = Some v"
| "str_value x = None"

fun float_value :: "float_input \<Rightarrow> pyfloat option" where
  "float_value (FNumber f) = Some f"
| "float_value (FConverted f) = Some f"
| "float_value x = None"

definition opt_field :: "'a option \<Rightarrow> 'a field" where
  "opt_field x = (case x of None \<Rightarrow> Null | Some v \<Rightarrow> Val v)"

text \<open>\<^verbatim>\<open>item.model_dump()\<close>: the four declared keys, an unset optional one as \<^verbatim>\<open>None\<close>.\<close>

definition model_dump :: "ApprovalItemIn \<Rightarrow> doc" where
  "model_dump item = \<lparr>doc_id = Missing, doc_title = Val (title item),
     doc_description = opt_field (description item), doc_requester = Val (requester item),
     doc_amount = opt_field (amount item), doc_status = Missing,
     doc_created_at = Missing, doc_updated_at = Missing\<rparr>"

text \<open>
  \<^verbatim>\<open>create_approval\<close>. It has no check of \<^verbatim>\<open>db\<close> of its own: without a database
  \<^verbatim>\<open>create_document\<close> raises, and \<^verbatim>\<open>db["approvalitem"]\<close> would.
\<close>

definition create_approval :: "db \<Rightarrow> ObjectId \<Rightarrow> datetime \<Rightarrow> ApprovalItemIn \<Rightarrow> (error + wire option) \<times> db" where
  "create_approval db new_id now item =
     (let data = (model_dump item)\<lparr>doc_status := Val ''pending''\<rparr> in
      case create_document db new_id now data of
        (Inl e, db') \<Rightarrow> (Inl e, db')
      | (Inr inserted_id, db') \<Rightarrow>
          (case db' of
             None \<Rightarrow> (Inl (Unhandled ''NoneType object is not subscriptable''), db')
           | Some d \<Rightarrow> (Inr (serialize_item (find_one (approvalitem d) inserted_id)), db')))"

text \<open>
  The response of the route is rendered with \<^verbatim>\<open>json.dumps(..., allow_nan=False)\<close>,
  which raises \<^verbatim>\<open>ValueError\<close> on a float that is infinite or not-a-number.
\<close>

fun json_compliant :: "json \<Rightarrow> bool" where
  "json_compliant (JNum (Finite r)) = True"
| "json_compliant (JNum f) = False"
| "json_compliant v = True"

definition render :: "wire option \<Rightarrow> error + wire option" where
  "render content =
     (case content of
        None \<Rightarrow> Inr None
      | Some w \<Rightarrow>
          if list_all (\<lambda>kv. json_compliant (snd kv)) w then Inr (Some w)
          else Inl (Unhandled ''Out of range float values are not JSON compliant''))"

text \<open>
  The route \<^verbatim>\<open>POST /api/approvals\<close>: the body is validated before the handler runs,
  and what the handler returns is rendered; the status is 201 when all of this succeeds.
\<close>

definition post_approvals :: "db \<Rightarrow> ObjectId \<Rightarrow> datetime \<Rightarrow> body \<Rightarrow> (error + wire option) \<times> db" where
  "post_approvals db new_id now b =
     (case validate_body b of
        Inl inputs \<Rightarrow> (Inl (validation_response inputs), db)
      | Inr item \<Rightarrow>
          (case create_approval db new_id now item of
             (Inl e, db') \<Rightarrow> (Inl e, db')
           | (Inr r, db') \<Rightarrow> (render r, db')))"

section \<open>Listing\<close>



section \<open>Approving and rejecting\<close>

definition set_fields :: "string \<Rightarrow> datetime \<Rightarrow> doc \<Rightarrow> doc" where
  "set_fields s now d = d\<lparr>doc_status := Val s, doc_updated_at := Val now\<rparr>"

definition approve_item :: "db \<Rightarrow> string \<Rightarrow> datetime \<Rightarrow> (error + wire option) \<times> db" where
  "approve_item db item_id now =
     (case db of
        None \<Rightarrow> (Inl (HTTPException 500 ''Database not available''), db)
      | Some d \<Rightarrow>
          (case oid item_id of
             Inl e \<Rightarrow> (Inl e, db)
           | Inr i \<Rightarrow>
               (case update_one i (set_fields ''approved'' now) (approvalitem d) of
                  (matched_count, docs') \<Rightarrow>
                    (let db' = Some (d\<lparr>approvalitem := docs'\<rparr>) in
                     if matched_count = 0
                     then (Inl (HTTPException 404 ''Item not found''), db')
                     else (case oid item_id of
                             Inl e \<Rightarrow> (Inl e, db')
                           | Inr j \<Rightarrow> (Inr (serialize_item (find_one docs' j)), db'))))))"

definition reject_item :: "db \<Rightarrow> string \<Rightarrow> datetime \<Rightarrow> (error + wire option) \<times> db" where
  "reject_item db item_id now =
     (case db of
        None \<Rightarrow> (Inl (HTTPException 500 ''Database not available''), db)
      | Some d \<Rightarrow>
          (case oid item_id of
             Inl e \<Rightarrow> (Inl e, db)
           | Inr i \<Rightarrow>
               (case update_one i (set_fields ''rejected'' now) (approvalitem d) of
                  (matched_count, docs') \<Rightarrow>
                    (let db' = Some (d\<lparr>approvalitem := docs'\<rparr>) in
                     if matched_count = 0
                     then (Inl (HTTPException 404 ''Item not found''), db')
                     else (case oid item_id of
                             Inl e \<Rightarrow> (Inl e, db')
                           | Inr j \<Rightarrow> (Inr (serialize_item (find_one docs' j)), db'))))))"

section \<open>Seeding\<close>

definition sample :: "string \<Rightarrow> string \<Rightarrow> string \<Rightarrow> real \<Rightarrow> doc" where
  "sample t descr r a = \<lparr>doc_id = Missing, doc_title = Val t, doc_description = Val descr,
     doc_requester = Val r, doc_amount = Val (Finite a), doc_status = Val ''pending'',
     doc_created_at = Missing, doc_updated_at = Missing\<rparr>"

definition samples :: "doc list" where
  "samples =
     [sample ''Marketing Spend Q1'' ''Campaign boost on socials'' ''Ava'' 1200,
      sample ''Laptop Purchase'' ''Designer MacBook Pro'' ''Leo'' 2499,
      sample ''SaaS Renewal'' ''Analytics tool annual plan'' ''Mia'' 780,
      sample ''Team Offsite'' ''Venue deposit'' ''Noah'' 1500]"

text \<open>
  The loop \<^verbatim>\<open>for s in samples: create_document("approvalitem", s)\<close>. The \<open>k\<close>-th
  insertion of the request receives the identifier and the clock reading \<open>gen k\<close>; an
  exception ends the loop.
\<close>

fun seed_loop :: "db \<Rightarrow> (nat \<Rightarrow> ObjectId \<times> datetime) \<Rightarrow> nat \<Rightarrow> doc list \<Rightarrow> error option \<times> db" where
  "seed_loop db gen k [] = (None, db)"
| "seed_loop db gen k (s # ss) =
     (case create_document db (fst (gen k)) (snd (gen k)) s of
        (Inl e, db') \<Rightarrow> (Some e, db')
      | (Inr new_id, db') \<Rightarrow> seed_loop db' gen (Suc k) ss)"

definition seed_data :: "db \<Rightarrow> (nat \<Rightarrow> ObjectId \<times> datetime) \<Rightarrow> (error + wire) \<times> db" where
  "seed_data db gen =
     (case db of
        None \<Rightarrow> (Inl (HTTPException 500 ''Database not available''), db)
      | Some d \<Rightarrow>
          (let count = count_documents (approvalitem d) in
           if count > 0
           then (Inr [(''inserted'', JInt 0), (''message'', JStr ''Data already present'')], db)
           else (case seed_loop db gen 0 samples of
                   (Some e, db') \<Rightarrow> (Inl e, db')
                 | (None, db') \<Rightarrow> (Inr [(''inserted'', JInt (int (length samples)))], db'))))"

section \<open>Diagnostics\<close>

text \<open>The three symbols of the status texts: U+2705, U+274C and U+26A0 U+FE0F.\<close>

definition check_mark :: pystr where
  "check_mark = [0x2705]"

definition cross_mark :: pystr where
  "cross_mark = [0x274C]"

definition warning_sign :: pystr where
  "warning_sign = [0x26A0, 0xFE0F]"

record diagnostics =
  backend :: pystr
  database :: pystr
  database_url :: "pystr option"
  database_name :: "string option"
  connection_status :: string
  collections :: "string list"

text \<open>
  \<^verbatim>\<open>test_database\<close>; \<open>env_url\<close> is \<^verbatim>\<open>os.getenv("DATABASE_URL")\<close>. The only call of
  the \<^verbatim>\<open>try\<close> block that raises is \<^verbatim>\<open>list_collection_names()\<close>, caught by the inner
  handler, so the outer handler has no branch here.
\<close>

definition test_database :: "db \<Rightarrow> string option \<Rightarrow> diagnostics" where
  "test_database db env_url =
     (let response = \<lparr>backend = check_mark @ ascii '' Running'',
            database = cross_mark @ ascii '' Not Available'',
            database_url = None, database_name = None,
            connection_status = ''Not Connected'', collections = []\<rparr>
      in case db of
        Some d \<Rightarrow>
          (let response = response\<lparr>database := check_mark @ ascii '' Available'',
                 database_url := Some (if env_url \<noteq> None \<and> env_url \<noteq> Some []
                                       then check_mark @ ascii '' Set''
                                       else cross_mark @ ascii '' Not Set''),
                 database_name := Some (name d),
                 connection_status := ''Connected''\<rparr>
           in case list_collection_names d of
                Inr cs \<Rightarrow> response\<lparr>collections := take 10 cs,
                            database := check_mark @ ascii '' Connected & Working''\<rparr>
              | Inl e \<Rightarrow> response\<lparr>database :=
                            warning_sign @ ascii '' Connected but Error: '' @ take 50 e\<rparr>)
      | None \<Rightarrow> response\<lparr>database := warning_sign @ ascii '' Available but not initialized''\<rparr>)"

text \<open>The route \<^verbatim>\<open>GET /test\<close> has no failing branch: its result is always a body.\<close>

definition get_test :: "db \<Rightarrow> string option \<Rightarrow> error + diagnostics" where
  "get_test db env_url = Inr (test_database db env_url)"

section \<open>Example data\<close>

text \<open>Concrete identifiers, bodies, documents and databases on which the results are run.\<close>

definition id1 :: ObjectId where
  "id1 = ObjectId ''0123456789abcdef01234567''"

definition id2 :: ObjectId where
  "id2 = ObjectId ''aaaaaaaaaaaaaaaaaaaaaaaa''"

definition id3 :: ObjectId where
  "id3 = ObjectId ''bbbbbbbbbbbbbbbbbbbbbbbb''"

definition db0 :: Database where
  "db0 = \<lparr>name = ''approvals'', list_collection_names = Inr [], approvalitem = []\<rparr>"

definition body1 :: body where
  "body1 = \<lparr>b_title = SStr ''Desk'', b_description = SMissing, b_requester = SStr ''Sam'',
     b_amount = FNumber (Finite 300), b_status = Some ''approved'', b_others_render = True\<rparr>"

definition item_doc :: "ObjectId \<Rightarrow> string \<Rightarrow> string \<Rightarrow> datetime \<Rightarrow> datetime \<Rightarrow> doc" where
  "item_doc i t s c u = \<lparr>doc_id = Val i, doc_title = Val t, doc_description = Null,
     doc_requester = Val ''Sam'', doc_amount = Val (Finite 300), doc_status = Val s,
     doc_created_at = Val c, doc_updated_at = Val u\<rparr>"

definition item_wire :: "string \<Rightarrow> string \<Rightarrow> string \<Rightarrow> datetime \<Rightarrow> datetime \<Rightarrow> wire" where
  "item_wire h t s c u = [(''id'', JStr h), (''title'', JStr t), (''description'', JNull),
     (''requester'', JStr ''Sam''), (''amount'', JNum (Finite 300)), (''status'', JStr s),
     (''created_at'', JTime c), (''updated_at'', JTime u)]"

definition db3 :: Database where
  "db3 = \<lparr>name = ''approvals'', list_collection_names = Inr [''approvalitem''],
     approvalitem = [item_doc id1 ''Desk'' ''pending'' 1 1, item_doc id2 ''Chair'' ''approved'' 2 4,
                     item_doc id3 ''Lamp'' ''pending'' 3 3]\<rparr>"

definition legacy_doc :: doc where
  "legacy_doc = \<lparr>doc_id = Val id1, doc_title = Val ''Desk'', doc_description = Null,
     doc_requester = Val ''Sam'', doc_amount = Val (Finite 300), doc_status = Missing,
     doc_created_at = Val 5, doc_updated_at = Val 5\<rparr>"

definition gen0 :: "nat \<Rightarrow> ObjectId \<times> datetime" where
  "gen0 k = (ObjectId (''00000000000000000000000'' @ [''0123456789abcdef'' ! (k mod 16)]), 10 + k)"

section \<open>Serialisation\<close>

lemma empty_doc_id: "doc_id d \<noteq> Missing \<Longrightarrow> d \<noteq> empty_doc"
  by (auto simp: empty_doc_def)

lemma empty_doc_status: "doc_status d \<noteq> Missing \<Longrightarrow> d \<noteq> empty_doc"
  by (auto simp: empty_doc_def)

lemma serialize_item_Some:
  "d \<noteq> empty_doc \<Longrightarrow> serialize_item (Some d) =
     Some [(''id'', JStr (py_str (dict_get (doc_id d)))),
           (''title'', to_json JStr (dict_get (doc_title d))),
           (''description'', to_json JStr (dict_get (doc_description d))),
           (''requester'', to_json JStr (dict_get (doc_requester d))),
           (''amount'', to_json JNum (dict_get (doc_amount d))),
           (''status'', to_json JStr (dict_get_default (doc_status d) ''pending'')),
           (''created_at'', to_json JTime (dict_get (doc_created_at d))),
           (''updated_at'', to_json JTime (dict_get (doc_updated_at d)))]"
  by (simp add: serialize_item_def)

lemma serialize_item_status:
  "doc_status x = Val s \<Longrightarrow>
     \<exists>w. serialize_item (Some x) = Some w \<and> map_of w ''status'' = Some (JStr s) \<and>
         map_of w ''created_at'' = Some (to_json JTime (created_key x))"
  using empty_doc_status [of x]
  by (simp add: serialize_item_def dict_get_default_def to_json_def created_key_def)

text \<open>
  Claim C8. Serialising a stored record (any dictionary but the empty one) gives a dictionary
  with exactly the keys \<open>id\<close>, \<open>title\<close>, \<open>description\<close>, \<open>requester\<close>, \<open>amount\<close>,
  \<open>status\<close>, \<open>created_at\<close>, \<open>updated_at\<close>, each holding the stored value (null when the
  record has none); \<open>status\<close> is \<open>pending\<close> when the record has no status key; the raw
  key \<open>_id\<close> is not among the keys, its value appears as the string \<open>id\<close>. Serialising no
  record gives the null marker \<open>None\<close>.
\<close>

theorem serialize_item_fields:
  "serialize_item None = None \<and> serialize_item (Some empty_doc) = None \<and>
   (d \<noteq> empty_doc \<longrightarrow>
     (\<exists>w. serialize_item (Some d) = Some w \<and>
        map fst w = [''id'', ''title'', ''description'', ''requester'', ''amount'',
                     ''status'', ''created_at'', ''updated_at''] \<and>
        ''_id'' \<notin> set (map fst w) \<and>
        map_of w ''id'' = Some (JStr (py_str (dict_get (doc_id d)))) \<and>
        map_of w ''title'' = Some (to_json JStr (dict_get (doc_title d))) \<and>
        map_of w ''description'' = Some (to_json JStr (dict_get (doc_description d))) \<and>
        map_of w ''requester'' = Some (to_json JStr (dict_get (doc_requester d))) \<and>
        map_of w ''amount'' = Some (to_json JNum (dict_get (doc_amount d))) \<and>
        map_of w ''created_at'' = Some (to_json JTime (dict_get (doc_created_at d))) \<and>
        map_of w ''updated_at'' = Some (to_json JTime (dict_get (doc_updated_at d))) \<and>
        (doc_status d = Missing \<longrightarrow> map_of w ''status'' = Some (JStr ''pending'')) \<and>
        (\<forall>s. doc_status d = Val s \<longrightarrow> map_of w ''status'' = Some (JStr s)) \<and>
        (doc_status d = Null \<longrightarrow> map_of w ''status'' = Some JNull)))"
  by (simp add: serialize_item_def dict_get_default_def to_json_def)

theorem serialize_item_fields_witness:
  "legacy_doc \<noteq> empty_doc \<and> doc_status legacy_doc = Missing \<and>
   serialize_item (Some legacy_doc) =
     Some [(''id'', JStr ''0123456789abcdef01234567''), (''title'', JStr ''Desk''),
           (''description'', JNull), (''requester'', JStr ''Sam''), (''amount'', JNum (Finite 300)),
           (''status'', JStr ''pending''), (''created_at'', JTime 5), (''updated_at'', JTime 5)]"
  using serialize_item_fields [of legacy_doc]
  by (simp add: legacy_doc_def id1_def empty_doc_def serialize_item_def dict_get_def
      dict_get_default_def to_json_def py_str_def)

section \<open>The store operations\<close>

lemma update_one_no_match:
  "\<forall>x\<in>set ds. doc_id x \<noteq> Val i \<Longrightarrow> update_one i f ds = (0, ds)"
  by (induction ds) auto

lemma update_one_count: "fst (update_one i f ds) = 0 \<or> fst (update_one i f ds) = 1"
  by (induction ds) (auto split: prod.splits)

lemma update_one_match:
  "update_one i f ds = (n, ds') \<Longrightarrow> n \<noteq> 0 \<Longrightarrow>
     \<exists>pre x post. ds = pre @ x # post \<and> ds' = pre @ f x # post \<and> doc_id x = Val i \<and>
        (\<forall>y\<in>set pre. doc_id y \<noteq> Val i)"
proof (induction ds arbitrary: n ds')
  case Nil
  then show ?case by simp
next
  case (Cons d ds)
  show ?case
  proof (cases "doc_id d = Val i")
    case True
    with Cons.prems have "ds' = f d # ds" by simp
    with True show ?thesis by (intro exI [of _ "[]"]) auto
  next
    case False
    obtain m es where r: "update_one i f ds = (m, es)" by (cases "update_one i f ds")
    with False Cons.prems have n: "m = n" and ds': "ds' = d # es" by auto
    from Cons.IH [OF r] n Cons.prems(2)
    obtain pre x post where "ds = pre @ x # post" "es = pre @ f x # post" "doc_id x = Val i"
      "\<forall>y\<in>set pre. doc_id y \<noteq> Val i" by auto
    with False ds' show ?thesis by (intro exI [of _ "d # pre"]) auto
  qed
qed

lemma find_one_split:
  "\<forall>y\<in>set pre. doc_id y \<noteq> Val i \<Longrightarrow> doc_id x = Val i \<Longrightarrow> find_one (pre @ x # post) i = Some x"
  by (induction pre) (auto simp: find_one_def)

lemma find_one_appended:
  "\<forall>y\<in>set ds. doc_id y \<noteq> Val i \<Longrightarrow> doc_id x = Val i \<Longrightarrow> find_one (ds @ [x]) i = Some x"
  using find_one_split [of ds i x "[]"] by simp






text \<open>Documents of equal timestamp keep the order of the collection.\<close>

lemma insort_created_desc_tie:
  "\<forall>y\<in>set ys. created_key y = created_key x \<Longrightarrow> insort_created_desc x ys = x # ys"
  by (cases ys) simp_all

lemma sort_created_desc_ties:
  "\<forall>x\<in>set docs. created_key x = k \<Longrightarrow> sort_created_desc docs = docs"
  unfolding sort_created_desc_def
  by (induction docs) (simp_all add: insort_created_desc_tie)

lemma create_document_Inr:
  "create_document db new_id now data = (Inr i, db') \<Longrightarrow>
     \<exists>d. db = Some d \<and> i = new_id \<and> (\<forall>y\<in>set (approvalitem d). doc_id y \<noteq> Val new_id) \<and>
         db' = Some (d\<lparr>approvalitem := approvalitem d @
           [data\<lparr>doc_id := Val new_id, doc_created_at := Val now, doc_updated_at := Val now\<rparr>]\<rparr>)"
  by (cases db) (auto simp: create_document_def image_iff split: if_splits)

lemma create_document_fresh:
  "\<forall>y\<in>set (approvalitem d). doc_id y \<noteq> Val new_id \<Longrightarrow>
     create_document (Some d) new_id now data =
       (Inr new_id, Some (d\<lparr>approvalitem := approvalitem d @
           [data\<lparr>doc_id := Val new_id, doc_created_at := Val now, doc_updated_at := Val now\<rparr>]\<rparr>))"
  by (auto simp: create_document_def)

lemma create_document_error:
  "create_document db new_id now data = (Inl e, db') \<Longrightarrow> status_code e = 500"
  by (cases db) (auto simp: create_document_def split: if_splits)

section \<open>Creating an item\<close>

lemma validate_body_status: "validate_body (b\<lparr>b_status := st\<rparr>) = validate_body b"
  by (simp add: validate_body_def body_renders_def)

lemma validate_body_sum:
  "validate_body b =
     (if isl (required_str (body_renders b) (b_title b)) \<or> isl (optional_str (b_description b)) \<or>
         isl (required_str (body_renders b) (b_requester b)) \<or>
         isl (optional_float_ge0 (b_amount b))
      then Inl (errors_of (required_str (body_renders b) (b_title b)) @
                errors_of (optional_str (b_description b)) @
                errors_of (required_str (body_renders b) (b_requester b)) @
                errors_of (optional_float_ge0 (b_amount b)))
      else Inr \<lparr>title = projr (required_str (body_renders b) (b_title b)),
                description = projr (optional_str (b_description b)),
                requester = projr (required_str (body_renders b) (b_requester b)),
                amount = projr (optional_float_ge0 (b_amount b))\<rparr>)"
  by (simp add: validate_body_def Let_def errors_of_def split: sum.splits)

lemma required_str_isl: "isl (required_str w x) \<longleftrightarrow> (\<forall>v. x \<noteq> SStr v)"
  by (cases x) simp_all

lemma required_str_renders:
  "list_all (\<lambda>r. r) (errors_of (required_str w x)) \<longleftrightarrow> (x = SMissing \<longrightarrow> w) \<and> x \<noteq> SOther False"
  by (cases x) (simp_all add: errors_of_def)

lemma optional_str_isl: "isl (optional_str x) \<longleftrightarrow> (\<exists>r. x = SOther r)"
  by (cases x) simp_all

lemma optional_str_renders:
  "list_all (\<lambda>r. r) (errors_of (optional_str x)) \<longleftrightarrow> x \<noteq> SOther False"
  by (cases x) (simp_all add: errors_of_def)

lemma optional_float_ge0_isl:
  "isl (optional_float_ge0 x) \<longleftrightarrow>
     ((\<exists>r. x = FOther r) \<or> (\<exists>f. float_value x = Some f \<and> \<not> ge_zero f))"
  by (cases x) simp_all

lemma optional_float_ge0_renders:
  "list_all (\<lambda>r. r) (errors_of (optional_float_ge0 x)) \<longleftrightarrow>
     x \<noteq> FOther False \<and> (\<forall>f. x = FNumber f \<and> \<not> ge_zero f \<longrightarrow> is_finite f)"
  by (cases x) (simp_all add: errors_of_def)

lemma validate_body_isl:
  "isl (validate_body b) \<longleftrightarrow>
     ((\<forall>t. b_title b \<noteq> SStr t) \<or> (\<forall>r. b_requester b \<noteq> SStr r) \<or>
      (\<exists>x. b_description b = SOther x) \<or> (\<exists>x. b_amount b = FOther x) \<or>
      (\<exists>f. float_value (b_amount b) = Some f \<and> \<not> ge_zero f))"
  unfolding validate_body_sum
  using required_str_isl [of "body_renders b" "b_title b"]
    required_str_isl [of "body_renders b" "b_requester b"]
    optional_str_isl [of "b_description b"] optional_float_ge0_isl [of "b_amount b"]
  by auto

lemma validate_body_renders:
  assumes "validate_body b = Inl inputs"
  shows "list_all (\<lambda>r. r) inputs \<longleftrightarrow>
     (((b_title b = SMissing \<or> b_requester b = SMissing) \<longrightarrow> body_renders b) \<and>
      b_title b \<noteq> SOther False \<and> b_requester b \<noteq> SOther False \<and>
      b_description b \<noteq> SOther False \<and> b_amount b \<noteq> FOther False \<and>
      (\<forall>f. b_amount b = FNumber f \<and> \<not> ge_zero f \<longrightarrow> is_finite f))"
proof -
  from assms have "inputs = errors_of (required_str (body_renders b) (b_title b)) @
                errors_of (optional_str (b_description b)) @
                errors_of (required_str (body_renders b) (b_requester b)) @
                errors_of (optional_float_ge0 (b_amount b))"
    unfolding validate_body_sum by (simp split: if_splits)
  then show ?thesis
    using required_str_renders [of "body_renders b" "b_title b"]
      required_str_renders [of "body_renders b" "b_requester b"]
      optional_str_renders [of "b_description b"] optional_float_ge0_renders [of "b_amount b"]
    by auto
qed

lemma validate_body_Inr:
  assumes "b_title b = SStr t" and "b_requester b = SStr r" and "\<forall>x. b_description b \<noteq> SOther x"
    and "b_amount b = FMissing \<or> b_amount b = FNull \<or>
         (\<exists>f. float_value (b_amount b) = Some f \<and> ge_zero f)"
  shows "validate_body b = Inr \<lparr>title = t, description = str_value (b_description b),
           requester = r, amount = float_value (b_amount b)\<rparr>"
proof -
  have 1: "optional_str (b_description b) = Inr (str_value (b_description b))"
    using assms(3) by (cases "b_description b") auto
  have 2: "optional_float_ge0 (b_amount b) = Inr (float_value (b_amount b))"
    using assms(4) by (cases "b_amount b") auto
  show ?thesis
    using assms(1,2) 1 2 by (simp add: validate_body_sum)
qed

lemma create_approval_Inr:
  assumes "create_approval db new_id now item = (Inr r, db')"
  shows "\<exists>d x. db = Some d \<and> (\<forall>y\<in>set (approvalitem d). doc_id y \<noteq> Val new_id) \<and>
           db' = Some (d\<lparr>approvalitem := approvalitem d @ [x]\<rparr>) \<and>
           x = (model_dump item)\<lparr>doc_status := Val ''pending'', doc_id := Val new_id,
                  doc_created_at := Val now, doc_updated_at := Val now\<rparr> \<and>
           r = serialize_item (Some x)"
proof -
  let ?data = "(model_dump item)\<lparr>doc_status := Val ''pending''\<rparr>"
  obtain res db1 where c: "create_document db new_id now ?data = (res, db1)"
    by (cases "create_document db new_id now ?data")
  with assms obtain i where res: "res = Inr i"
    by (cases res) (auto simp: create_approval_def Let_def)
  from create_document_Inr [OF c [unfolded res]]
  obtain d where d: "db = Some d" "i = new_id" "\<forall>y\<in>set (approvalitem d). doc_id y \<noteq> Val new_id"
    "db1 = Some (d\<lparr>approvalitem := approvalitem d @
           [?data\<lparr>doc_id := Val new_id, doc_created_at := Val now, doc_updated_at := Val now\<rparr>]\<rparr>)"
    by blast
  let ?x = "?data\<lparr>doc_id := Val new_id, doc_created_at := Val now, doc_updated_at := Val now\<rparr>"
  have f: "find_one (approvalitem d @ [?x]) new_id = Some ?x"
    using d(3) by (intro find_one_appended) simp_all
  from assms c res d f have "db' = db1" "r = serialize_item (Some ?x)"
    by (auto simp: create_approval_def Let_def)
  with d show ?thesis by simp
qed

lemma create_approval_not_422:
  "response_status 201 (fst (create_approval db new_id now item)) \<noteq> 422"
proof (cases "create_document db new_id now ((model_dump item)\<lparr>doc_status := Val ''pending''\<rparr>)")
  case (Pair res db1)
  show ?thesis
  proof (cases res)
    case (Inl e)
    with Pair create_document_error [of db new_id now _ e db1] show ?thesis
      by (simp add: create_approval_def Let_def response_status_def)
  next
    case (Inr i)
    with Pair show ?thesis
      by (cases db1) (simp_all add: create_approval_def Let_def response_status_def)
  qed
qed

lemma render_Inr: "render r0 = Inr r \<Longrightarrow> r = r0"
  by (auto simp: render_def split: option.splits if_splits)

lemma render_not_422: "response_status 201 (render r0) \<noteq> 422"
  by (auto simp: render_def response_status_def split: option.splits)

lemma post_approvals_valid_not_422:
  assumes "validate_body b = Inr item"
  shows "response_status 201 (fst (post_approvals db new_id now b)) \<noteq> 422"
proof (cases "create_approval db new_id now item")
  case (Pair res db1)
  show ?thesis
  proof (cases res)
    case (Inl e)
    with Pair assms create_approval_not_422 [of db new_id now item] show ?thesis
      by (simp add: post_approvals_def)
  next
    case (Inr r0)
    with Pair assms render_not_422 [of r0] show ?thesis
      by (simp add: post_approvals_def)
  qed
qed

lemma post_approvals_invalid:
  assumes "validate_body b = Inl inputs"
  shows "snd (post_approvals db new_id now b) = db"
    and "response_status 201 (fst (post_approvals db new_id now b)) =
           (if list_all (\<lambda>r. r) inputs then 422 else 500)"
  using assms by (simp_all add: post_approvals_def validation_response_def response_status_def)

lemma post_approvals_Inr:
  assumes "post_approvals db new_id now b = (Inr r, db')"
  shows "\<exists>item. validate_body b = Inr item \<and> create_approval db new_id now item = (Inr r, db')"
proof -
  from assms obtain item where v: "validate_body b = Inr item"
    by (cases "validate_body b") (auto simp: post_approvals_def)
  obtain res db1 where c: "create_approval db new_id now item = (res, db1)"
    by (cases "create_approval db new_id now item")
  from assms v c obtain r0 where res: "res = Inr r0" and "render r0 = Inr r" and "db1 = db'"
    by (cases res) (auto simp: post_approvals_def)
  with render_Inr [of r0 r] v c show ?thesis by auto
qed

text \<open>
  Claim C1. Whenever the create route answers with its success status 201, the item it
  returns has \<open>status = pending\<close>, and so has the document stored under the new
  identifier. A \<open>status\<close> key in the request body changes neither the validation nor the
  outcome: the schema does not declare it, and the handler writes \<open>pending\<close> before the
  insertion.
\<close>

theorem create_forces_pending:
  "(post_approvals db new_id now b = (Inr r, db') \<longrightarrow>
      response_status 201 (fst (post_approvals db new_id now b)) = 201 \<and>
      (\<exists>w d' x. r = Some w \<and> map_of w ''status'' = Some (JStr ''pending'') \<and>
         db' = Some d' \<and> find_one (approvalitem d') new_id = Some x \<and>
         doc_status x = Val ''pending'' \<and> r = serialize_item (Some x))) \<and>
   validate_body (b\<lparr>b_status := st\<rparr>) = validate_body b \<and>
   post_approvals db new_id now (b\<lparr>b_status := st\<rparr>) = post_approvals db new_id now b"
proof (intro conjI impI)
  assume a: "post_approvals db new_id now b = (Inr r, db')"
  then show "response_status 201 (fst (post_approvals db new_id now b)) = 201"
    by (simp add: response_status_def)
  from post_approvals_Inr [OF a] obtain item where "validate_body b = Inr item"
    and c: "create_approval db new_id now item = (Inr r, db')"
    by blast
  from create_approval_Inr [OF c]
  obtain d x where d: "db = Some d" "\<forall>y\<in>set (approvalitem d). doc_id y \<noteq> Val new_id"
    "db' = Some (d\<lparr>approvalitem := approvalitem d @ [x]\<rparr>)"
    "x = (model_dump item)\<lparr>doc_status := Val ''pending'', doc_id := Val new_id,
                  doc_created_at := Val now, doc_updated_at := Val now\<rparr>"
    "r = serialize_item (Some x)" by blast
  from d(4) have st: "doc_status x = Val ''pending''" and xi: "doc_id x = Val new_id" by simp_all
  from serialize_item_status [OF st]
  obtain w where w: "serialize_item (Some x) = Some w" "map_of w ''status'' = Some (JStr ''pending'')"
    by blast
  have f: "find_one (approvalitem d @ [x]) new_id = Some x"
    using d(2) xi by (rule find_one_appended)
  show "\<exists>w d' x. r = Some w \<and> map_of w ''status'' = Some (JStr ''pending'') \<and>
         db' = Some d' \<and> find_one (approvalitem d') new_id = Some x \<and>
         doc_status x = Val ''pending'' \<and> r = serialize_item (Some x)"
    apply (rule exI [of _ w], rule exI [of _ "d\<lparr>approvalitem := approvalitem d @ [x]\<rparr>"], rule exI [of _ x])
    using w d f st by simp
next
  show "validate_body (b\<lparr>b_status := st\<rparr>) = validate_body b"
    by (rule validate_body_status)
  then show "post_approvals db new_id now (b\<lparr>b_status := st\<rparr>) = post_approvals db new_id now b"
    by (simp add: post_approvals_def)
qed

theorem create_forces_pending_witness:
  "post_approvals (Some db0) id1 7 body1 =
     (Inr (Some (item_wire ''0123456789abcdef01234567'' ''Desk'' ''pending'' 7 7)),
      Some (db0\<lparr>approvalitem := [item_doc id1 ''Desk'' ''pending'' 7 7]\<rparr>)) \<and>
   b_status body1 = Some ''approved'' \<and>
   map_of (item_wire ''0123456789abcdef01234567'' ''Desk'' ''pending'' 7 7) ''status'' =
     Some (JStr ''pending'')"
  using create_forces_pending [of "Some db0" id1 7 body1
      "Some (item_wire ''0123456789abcdef01234567'' ''Desk'' ''pending'' 7 7)"
      "Some (db0\<lparr>approvalitem := [item_doc id1 ''Desk'' ''pending'' 7 7]\<rparr>)" None]
  by (simp add: id1_def db0_def body1_def item_doc_def item_wire_def
      response_status_def serialize_item_def empty_doc_def dict_get_def dict_get_default_def
      py_str_def to_json_def find_one_def post_approvals_def validate_body_def body_renders_def
      errors_of_def render_def
      create_approval_def create_document_def model_dump_def opt_field_def)

lemma create_approval_fresh:
  assumes "\<forall>y\<in>set (approvalitem d). doc_id y \<noteq> Val new_id"
  shows "create_approval (Some d) new_id now item =
           (Inr (serialize_item (Some ((model_dump item)\<lparr>doc_status := Val ''pending'',
                   doc_id := Val new_id, doc_created_at := Val now, doc_updated_at := Val now\<rparr>))),
            Some (d\<lparr>approvalitem := approvalitem d @
              [(model_dump item)\<lparr>doc_status := Val ''pending'', doc_id := Val new_id,
                 doc_created_at := Val now, doc_updated_at := Val now\<rparr>]\<rparr>))"
proof -
  let ?x = "(model_dump item)\<lparr>doc_status := Val ''pending'', doc_id := Val new_id,
      doc_created_at := Val now, doc_updated_at := Val now\<rparr>"
  have f: "find_one (approvalitem d @ [?x]) new_id = Some ?x"
    using assms by (intro find_one_appended) simp_all
  show ?thesis
    using assms f by (simp add: create_approval_def create_document_fresh Let_def)
qed

lemma serialize_created:
  "serialize_item (Some ((model_dump \<lparr>title = t, description = descr, requester = r, amount = a\<rparr>)
      \<lparr>doc_status := Val ''pending'', doc_id := Val new_id, doc_created_at := Val now,
        doc_updated_at := Val now\<rparr>)) =
     Some [(''id'', JStr (hex new_id)), (''title'', JStr t),
           (''description'', to_json JStr descr), (''requester'', JStr r),
           (''amount'', to_json JNum a), (''status'', JStr ''pending''),
           (''created_at'', JTime now), (''updated_at'', JTime now)]"
  by (simp add: serialize_item_def empty_doc_def model_dump_def dict_get_def dict_get_default_def
      to_json_def py_str_def opt_field_def split: option.splits)

text \<open>What the create route does with a body that passes validation, given a database.\<close>

lemma post_approvals_valid:
  assumes v: "validate_body b = Inr \<lparr>title = t, description = descr, requester = r, amount = a\<rparr>"
    and fresh: "\<forall>y\<in>set (approvalitem d). doc_id y \<noteq> Val new_id"
  shows "post_approvals (Some d) new_id now b =
           (render (Some [(''id'', JStr (hex new_id)), (''title'', JStr t),
                          (''description'', to_json JStr descr), (''requester'', JStr r),
                          (''amount'', to_json JNum a), (''status'', JStr ''pending''),
                          (''created_at'', JTime now), (''updated_at'', JTime now)]),
            Some (d\<lparr>approvalitem := approvalitem d @
              [\<lparr>doc_id = Val new_id, doc_title = Val t, doc_description = opt_field descr,
                doc_requester = Val r, doc_amount = opt_field a, doc_status = Val ''pending'',
                doc_created_at = Val now, doc_updated_at = Val now\<rparr>]\<rparr>))"
proof -
  let ?item = "\<lparr>title = t, description = descr, requester = r, amount = a\<rparr>"
  let ?x = "(model_dump ?item)\<lparr>doc_status := Val ''pending'', doc_id := Val new_id,
      doc_created_at := Val now, doc_updated_at := Val now\<rparr>"
  from v create_approval_fresh [OF fresh, of now ?item]
  have p0: "post_approvals (Some d) new_id now b =
      (render (serialize_item (Some ?x)), Some (d\<lparr>approvalitem := approvalitem d @ [?x]\<rparr>))"
    by (simp add: post_approvals_def)
  have x: "?x = \<lparr>doc_id = Val new_id, doc_title = Val t, doc_description = opt_field descr,
                doc_requester = Val r, doc_amount = opt_field a, doc_status = Val ''pending'',
                doc_created_at = Val now, doc_updated_at = Val now\<rparr>"
    by (simp add: model_dump_def)
  have p1: "post_approvals (Some d) new_id now b =
      (render (Some [(''id'', JStr (hex new_id)), (''title'', JStr t),
                          (''description'', to_json JStr descr), (''requester'', JStr r),
                          (''amount'', to_json JNum a), (''status'', JStr ''pending''),
                          (''created_at'', JTime now), (''updated_at'', JTime now)]),
       Some (d\<lparr>approvalitem := approvalitem d @ [?x]\<rparr>))"
    by (simp only: p0 serialize_created)
  show ?thesis by (simp only: p1 x)
qed

lemma render_created:
  "render (Some [(''id'', JStr i), (''title'', JStr t), (''description'', to_json JStr descr),
                 (''requester'', JStr r), (''amount'', to_json JNum a), (''status'', JStr s),
                 (''created_at'', JTime c), (''updated_at'', JTime u)]) =
     (if \<forall>f. a = Some f \<longrightarrow> is_finite f
      then Inr (Some [(''id'', JStr i), (''title'', JStr t), (''description'', to_json JStr descr),
                 (''requester'', JStr r), (''amount'', to_json JNum a), (''status'', JStr s),
                 (''created_at'', JTime c), (''updated_at'', JTime u)])
      else Inl (Unhandled ''Out of range float values are not JSON compliant''))"
proof (cases a)
  case None
  then show ?thesis by (simp add: render_def to_json_def split: option.splits)
next
  case (Some f)
  then show ?thesis by (cases f) (simp_all add: render_def to_json_def split: option.splits)
qed

text \<open>
  Claim C2, as the code has it. The create route answers 422 exactly when the body fails
  validation and every refused input can be rendered as JSON. It fails validation when
  \<open>title\<close> or \<open>requester\<close> is missing, null or not a string, when \<open>description\<close> is
  present and neither null nor a string, or when \<open>amount\<close> is present and neither null nor
  a number that is \<open>>= 0\<close> (a negative number, minus infinity, not-a-number, or a value
  that is no number). The schema puts no bound on the length of a string, so an empty
  \<open>title\<close> or \<open>requester\<close> is accepted. When a refused input cannot be rendered (the
  number minus infinity or not-a-number under \<open>amount\<close>, or the whole body, for a missing
  key, when it holds such a float) the answer is 500. A body that passes, with \<open>amount\<close>
  missing, null or finite, is answered with 201 and the created record when there is a
  database and the identifier the store generates is not yet in the collection. Without a
  database a body that passes is answered with 500; and so is, with a database, a body
  whose \<open>amount\<close> is plus infinity, after its record is inserted, since the response cannot
  be rendered.
\<close>

theorem create_422_iff:
  "(response_status 201 (fst (post_approvals db new_id now b)) = 422 \<longleftrightarrow>
      ((\<forall>t. b_title b \<noteq> SStr t) \<or> (\<forall>r. b_requester b \<noteq> SStr r) \<or>
       (\<exists>x. b_description b = SOther x) \<or> (\<exists>x. b_amount b = FOther x) \<or>
       (\<exists>f. float_value (b_amount b) = Some f \<and> \<not> ge_zero f)) \<and>
      ((b_title b = SMissing \<or> b_requester b = SMissing) \<longrightarrow> body_renders b) \<and>
      b_title b \<noteq> SOther False \<and> b_requester b \<noteq> SOther False \<and>
      b_description b \<noteq> SOther False \<and> b_amount b \<noteq> FOther False \<and>
      (\<forall>f. b_amount b = FNumber f \<and> \<not> ge_zero f \<longrightarrow> is_finite f)) \<and>
   (((b_title b = SMissing \<or> b_requester b = SMissing) \<and> \<not> body_renders b) \<or>
    b_title b = SOther False \<or> b_requester b = SOther False \<or>
    b_description b = SOther False \<or> b_amount b = FOther False \<or>
    b_amount b = FNumber NegInf \<or> b_amount b = FNumber NaN \<longrightarrow>
      response_status 201 (fst (post_approvals db new_id now b)) = 500 \<and>
      snd (post_approvals db new_id now b) = db) \<and>
   (b_title b = SStr t \<and> b_requester b = SStr r \<and> (\<forall>x. b_description b \<noteq> SOther x) \<and>
    (b_amount b = FMissing \<or> b_amount b = FNull \<or>
     (\<exists>a. float_value (b_amount b) = Some (Finite a) \<and> 0 \<le> a)) \<and>
    db = Some d \<and> (\<forall>y\<in>set (approvalitem d). doc_id y \<noteq> Val new_id) \<longrightarrow>
      response_status 201 (fst (post_approvals db new_id now b)) = 201 \<and>
      post_approvals db new_id now b =
        (Inr (Some [(''id'', JStr (hex new_id)), (''title'', JStr t),
                    (''description'', to_json JStr (str_value (b_description b))),
                    (''requester'', JStr r),
                    (''amount'', to_json JNum (float_value (b_amount b))),
                    (''status'', JStr ''pending''),
                    (''created_at'', JTime now), (''updated_at'', JTime now)]),
         Some (d\<lparr>approvalitem := approvalitem d @
           [\<lparr>doc_id = Val new_id, doc_title = Val t,
             doc_description = opt_field (str_value (b_description b)), doc_requester = Val r,
             doc_amount = opt_field (float_value (b_amount b)), doc_status = Val ''pending'',
             doc_created_at = Val now, doc_updated_at = Val now\<rparr>]\<rparr>))) \<and>
   (b_title b = SStr t \<and> b_requester b = SStr r \<and> (\<forall>x. b_description b \<noteq> SOther x) \<and>
    (b_amount b = FMissing \<or> b_amount b = FNull \<or>
     (\<exists>f. float_value (b_amount b) = Some f \<and> ge_zero f)) \<longrightarrow>
      response_status 201 (fst (post_approvals None new_id now b)) = 500) \<and>
   (b_title b = SStr t \<and> b_requester b = SStr r \<and> (\<forall>x. b_description b \<noteq> SOther x) \<and>
    float_value (b_amount b) = Some PosInf \<and>
    db = Some d \<and> (\<forall>y\<in>set (approvalitem d). doc_id y \<noteq> Val new_id) \<longrightarrow>
      response_status 201 (fst (post_approvals db new_id now b)) = 500 \<and>
      snd (post_approvals db new_id now b) =
        Some (d\<lparr>approvalitem := approvalitem d @
           [\<lparr>doc_id = Val new_id, doc_title = Val t,
             doc_description = opt_field (str_value (b_description b)), doc_requester = Val r,
             doc_amount = Val PosInf, doc_status = Val ''pending'',
             doc_created_at = Val now, doc_updated_at = Val now\<rparr>]\<rparr>))"
proof (intro conjI impI)
  show "response_status 201 (fst (post_approvals db new_id now b)) = 422 \<longleftrightarrow>
      ((\<forall>t. b_title b \<noteq> SStr t) \<or> (\<forall>r. b_requester b \<noteq> SStr r) \<or>
       (\<exists>x. b_description b = SOther x) \<or> (\<exists>x. b_amount b = FOther x) \<or>
       (\<exists>f. float_value (b_amount b) = Some f \<and> \<not> ge_zero f)) \<and>
      ((b_title b = SMissing \<or> b_requester b = SMissing) \<longrightarrow> body_renders b) \<and>
      b_title b \<noteq> SOther False \<and> b_requester b \<noteq> SOther False \<and>
      b_description b \<noteq> SOther False \<and> b_amount b \<noteq> FOther False \<and>
      (\<forall>f. b_amount b = FNumber f \<and> \<not> ge_zero f \<longrightarrow> is_finite f)"
  proof (cases "validate_body b")
    case (Inl inputs)
    then have "isl (validate_body b)" by simp
    with validate_body_isl [of b] validate_body_renders [OF Inl]
      post_approvals_invalid(2) [OF Inl, of db new_id now]
    show ?thesis by simp
  next
    case (Inr item)
    then have "\<not> isl (validate_body b)" by simp
    with validate_body_isl [of b] post_approvals_valid_not_422 [OF Inr, of db new_id now]
    show ?thesis by simp
  qed
next
  assume a: "((b_title b = SMissing \<or> b_requester b = SMissing) \<and> \<not> body_renders b) \<or>
    b_title b = SOther False \<or> b_requester b = SOther False \<or>
    b_description b = SOther False \<or> b_amount b = FOther False \<or>
    b_amount b = FNumber NegInf \<or> b_amount b = FNumber NaN"
  then have "isl (validate_body b)"
    unfolding validate_body_isl by auto
  then obtain inputs where v: "validate_body b = Inl inputs"
    by (cases "validate_body b") simp_all
  from a validate_body_renders [OF v] have "\<not> list_all (\<lambda>r. r) inputs"
    by auto
  with post_approvals_invalid [OF v, of db new_id now]
  show "response_status 201 (fst (post_approvals db new_id now b)) = 500"
    and "snd (post_approvals db new_id now b) = db"
    by simp_all
next
  assume a: "b_title b = SStr t \<and> b_requester b = SStr r \<and> (\<forall>x. b_description b \<noteq> SOther x) \<and>
    (b_amount b = FMissing \<or> b_amount b = FNull \<or>
     (\<exists>a. float_value (b_amount b) = Some (Finite a) \<and> 0 \<le> a)) \<and>
    db = Some d \<and> (\<forall>y\<in>set (approvalitem d). doc_id y \<noteq> Val new_id)"
  then have v: "validate_body b = Inr \<lparr>title = t, description = str_value (b_description b),
      requester = r, amount = float_value (b_amount b)\<rparr>"
    by (intro validate_body_Inr) auto
  from a have fin: "\<forall>f. float_value (b_amount b) = Some f \<longrightarrow> is_finite f"
    by auto
  from a have db: "db = Some d" and fresh: "\<forall>y\<in>set (approvalitem d). doc_id y \<noteq> Val new_id"
    by simp_all
  show p: "post_approvals db new_id now b =
        (Inr (Some [(''id'', JStr (hex new_id)), (''title'', JStr t),
                    (''description'', to_json JStr (str_value (b_description b))),
                    (''requester'', JStr r),
                    (''amount'', to_json JNum (float_value (b_amount b))),
                    (''status'', JStr ''pending''),
                    (''created_at'', JTime now), (''updated_at'', JTime now)]),
         Some (d\<lparr>approvalitem := approvalitem d @
           [\<lparr>doc_id = Val new_id, doc_title = Val t,
             doc_description = opt_field (str_value (b_description b)), doc_requester = Val r,
             doc_amount = opt_field (float_value (b_amount b)), doc_status = Val ''pending'',
             doc_created_at = Val now, doc_updated_at = Val now\<rparr>]\<rparr>))"
    unfolding db post_approvals_valid [OF v fresh] render_created using fin by simp
  then show "response_status 201 (fst (post_approvals db new_id now b)) = 201"
    by (simp add: response_status_def)
next
  assume a: "b_title b = SStr t \<and> b_requester b = SStr r \<and> (\<forall>x. b_description b \<noteq> SOther x) \<and>
    (b_amount b = FMissing \<or> b_amount b = FNull \<or>
     (\<exists>f. float_value (b_amount b) = Some f \<and> ge_zero f))"
  then have "validate_body b = Inr \<lparr>title = t, description = str_value (b_description b),
      requester = r, amount = float_value (b_amount b)\<rparr>"
    by (intro validate_body_Inr) auto
  then show "response_status 201 (fst (post_approvals None new_id now b)) = 500"
    by (simp add: post_approvals_def create_approval_def create_document_def response_status_def)
next
  assume a: "b_title b = SStr t \<and> b_requester b = SStr r \<and> (\<forall>x. b_description b \<noteq> SOther x) \<and>
    float_value (b_amount b) = Some PosInf \<and>
    db = Some d \<and> (\<forall>y\<in>set (approvalitem d). doc_id y \<noteq> Val new_id)"
  then have v: "validate_body b = Inr \<lparr>title = t, description = str_value (b_description b),
      requester = r, amount = float_value (b_amount b)\<rparr>"
    by (intro validate_body_Inr) auto
  from a have g: "float_value (b_amount b) = Some PosInf"
    and db: "db = Some d" and fresh: "\<forall>y\<in>set (approvalitem d). doc_id y \<noteq> Val new_id"
    by simp_all
  have p: "post_approvals db new_id now b =
      (Inl (Unhandled ''Out of range float values are not JSON compliant''),
       Some (d\<lparr>approvalitem := approvalitem d @
           [\<lparr>doc_id = Val new_id, doc_title = Val t,
             doc_description = opt_field (str_value (b_description b)), doc_requester = Val r,
             doc_amount = Val PosInf, doc_status = Val ''pending'',
             doc_created_at = Val now, doc_updated_at = Val now\<rparr>]\<rparr>))"
    unfolding db post_approvals_valid [OF v fresh] render_created g
    by (simp add: opt_field_def)
  then show "response_status 201 (fst (post_approvals db new_id now b)) = 500"
    by (simp add: response_status_def)
  from p show "snd (post_approvals db new_id now b) =
        Some (d\<lparr>approvalitem := approvalitem d @
           [\<lparr>doc_id = Val new_id, doc_title = Val t,
             doc_description = opt_field (str_value (b_description b)), doc_requester = Val r,
             doc_amount = Val PosInf, doc_status = Val ''pending'',
             doc_created_at = Val now, doc_updated_at = Val now\<rparr>]\<rparr>)"
    by simp
qed

theorem create_422_iff_witness:
  "response_status 201 (fst (post_approvals (Some db0) id1 7 body1)) = 201 \<and>
   response_status 201 (fst (post_approvals (Some db0) id1 7
      (body1\<lparr>b_amount := FNumber (Finite (- 1))\<rparr>))) = 422 \<and>
   response_status 201 (fst (post_approvals (Some db0) id1 7 (body1\<lparr>b_title := SMissing\<rparr>))) = 422 \<and>
   response_status 201 (fst (post_approvals (Some db0) id1 7 (body1\<lparr>b_amount := FNumber NaN\<rparr>))) = 500 \<and>
   response_status 201 (fst (post_approvals None id1 7 body1)) = 500 \<and>
   response_status 201 (fst (post_approvals (Some db0) id1 7 (body1\<lparr>b_amount := FNumber PosInf\<rparr>))) = 500"
  using create_422_iff [of "Some db0" id1 7 body1 "''Desk''" "''Sam''" db0]
    create_422_iff [of "Some db0" id1 7 "body1\<lparr>b_amount := FNumber (Finite (- 1))\<rparr>"]
    create_422_iff [of "Some db0" id1 7 "body1\<lparr>b_title := SMissing\<rparr>"]
    create_422_iff [of "Some db0" id1 7 "body1\<lparr>b_amount := FNumber NaN\<rparr>"]
    create_422_iff [of "Some db0" id1 7 "body1\<lparr>b_amount := FNumber PosInf\<rparr>" "''Desk''" "''Sam''" db0]
  by (simp add: id1_def db0_def body1_def
      response_status_def serialize_item_def empty_doc_def dict_get_def dict_get_default_def
      py_str_def to_json_def find_one_def post_approvals_def validate_body_def body_renders_def
      errors_of_def render_def validation_response_def
      create_approval_def create_document_def model_dump_def opt_field_def)

text \<open>
  The claim as it is written fails at five bodies. A body whose \<open>title\<close> is the empty
  string is not refused: with a database it is answered 201. A body that passes is
  answered 500, not 201, when there is no database, and when its \<open>amount\<close> is plus infinity
  (which is \<open>>= 0\<close>). A body whose \<open>title\<close> is present and not a string is refused with
  422, though its title is neither missing nor empty. A body whose \<open>amount\<close> is the number
  minus infinity, which is negative, is answered 500, not 422.
\<close>

theorem create_empty_title_counterexample:
  "response_status 201 (fst (post_approvals (Some db0) id1 7
      \<lparr>b_title = SStr [], b_description = SMissing, b_requester = SStr ''Sam'',
        b_amount = FMissing, b_status = None, b_others_render = True\<rparr>)) = 201 \<and>
   response_status 201 (fst (post_approvals None id1 7
      \<lparr>b_title = SStr ''Desk'', b_description = SMissing, b_requester = SStr ''Sam'',
        b_amount = FNumber (Finite 300), b_status = None, b_others_render = True\<rparr>)) = 500 \<and>
   response_status 201 (fst (post_approvals (Some db0) id1 7
      \<lparr>b_title = SStr ''Desk'', b_description = SMissing, b_requester = SStr ''Sam'',
        b_amount = FNumber PosInf, b_status = None, b_others_render = True\<rparr>)) = 500 \<and>
   response_status 201 (fst (post_approvals (Some db0) id1 7
      \<lparr>b_title = SOther True, b_description = SMissing, b_requester = SStr ''Sam'',
        b_amount = FNumber (Finite 300), b_status = None, b_others_render = True\<rparr>)) = 422 \<and>
   response_status 201 (fst (post_approvals (Some db0) id1 7
      \<lparr>b_title = SStr ''Desk'', b_description = SMissing, b_requester = SStr ''Sam'',
        b_amount = FNumber NegInf, b_status = None, b_others_render = True\<rparr>)) = 500"
  by (simp add: id1_def db0_def
      response_status_def serialize_item_def empty_doc_def dict_get_def dict_get_default_def
      py_str_def to_json_def find_one_def post_approvals_def validate_body_def body_renders_def
      errors_of_def render_def validation_response_def
      create_approval_def create_document_def model_dump_def opt_field_def)

section \<open>Listing\<close>




section \<open>Approving and rejecting\<close>

lemma hex_digit_not_space: "is_hex_digit c \<Longrightarrow> \<not> is_space c"
  by (auto simp: is_hex_digit_def is_space_def)

lemma fromhex_hex_digits:
  "list_all is_hex_digit s \<Longrightarrow> even (length s) \<Longrightarrow> fromhex s = Some (map lower_hex s)"
  by (induction s rule: fromhex.induct) (auto simp: hex_digit_not_space)

text \<open>Every string of 24 hexadecimal digits is an identifier, read without regard to case.\<close>

lemma parse_ObjectId_hex_digits:
  "length s = 24 \<Longrightarrow> list_all is_hex_digit s \<Longrightarrow>
     parse_ObjectId s = Some (ObjectId (map lower_hex s))"
  by (simp add: parse_ObjectId_def fromhex_hex_digits)

text \<open>
  Whitespace between the bytes is skipped: 22 digits and two spaces are an identifier of
  eleven bytes, which is the identifier of no document of \<open>db3\<close>, so the answer is 404.
\<close>

lemma parse_ObjectId_whitespace:
  "parse_ObjectId ''0123456789abcdef012345  '' = Some (ObjectId ''0123456789abcdef012345'') \<and>
   parse_ObjectId ''0 123456789abcdef0123456 '' = None \<and>
   approve_item (Some db3) ''0123456789abcdef012345  '' 9 =
     (Inl (HTTPException 404 ''Item not found''), Some db3)"
  by (simp add: parse_ObjectId_def is_space_def is_hex_digit_def lower_hex_def
      approve_item_def oid_def id1_def id2_def id3_def item_doc_def db3_def)

lemma approve_item_no_match:
  assumes "parse_ObjectId item_id = Some i" and "\<forall>x\<in>set (approvalitem d). doc_id x \<noteq> Val i"
  shows "approve_item (Some d) item_id now = (Inl (HTTPException 404 ''Item not found''), Some d)"
  using assms by (simp add: approve_item_def oid_def update_one_no_match)

lemma reject_item_no_match:
  assumes "parse_ObjectId item_id = Some i" and "\<forall>x\<in>set (approvalitem d). doc_id x \<noteq> Val i"
  shows "reject_item (Some d) item_id now = (Inl (HTTPException 404 ''Item not found''), Some d)"
  using assms by (simp add: reject_item_def oid_def update_one_no_match)

text \<open>
  Claim C4. With a database, an id that parses and is the identifier of no stored document
  makes approve, and likewise reject, answer 404 \<open>Item not found\<close>, and the database after
  the request is the database before it.
\<close>

theorem no_match_404:
  assumes "parse_ObjectId item_id = Some i" and "\<forall>x\<in>set (approvalitem d). doc_id x \<noteq> Val i"
  shows "approve_item (Some d) item_id now = (Inl (HTTPException 404 ''Item not found''), Some d) \<and>
         reject_item (Some d) item_id now = (Inl (HTTPException 404 ''Item not found''), Some d) \<and>
         response_status 200 (fst (approve_item (Some d) item_id now)) = 404 \<and>
         response_status 200 (fst (reject_item (Some d) item_id now)) = 404"
  using approve_item_no_match [OF assms] reject_item_no_match [OF assms]
  by (simp add: response_status_def)

theorem no_match_404_witness:
  "parse_ObjectId ''ffffffffffffffffffffffff'' = Some (ObjectId ''ffffffffffffffffffffffff'') \<and>
   approve_item (Some db3) ''ffffffffffffffffffffffff'' 9 =
     (Inl (HTTPException 404 ''Item not found''), Some db3) \<and>
   reject_item (Some db3) ''ffffffffffffffffffffffff'' 9 =
     (Inl (HTTPException 404 ''Item not found''), Some db3)"
  using no_match_404 [of "''ffffffffffffffffffffffff''" "ObjectId ''ffffffffffffffffffffffff''" db3 9]
  by (simp add: id1_def id2_def id3_def item_doc_def db3_def
      parse_ObjectId_def is_space_def is_hex_digit_def lower_hex_def)

text \<open>
  Claim C5, as the code has it. When there is a database, an id that the constructor of
  identifiers refuses (one that is not 24 characters long, or that \<^verbatim>\<open>bytes.fromhex\<close>
  refuses) makes approve and reject answer 400 \<open>Invalid ID format\<close> and leaves the
  database as it was; this status differs from the one an id that parses and is the
  identifier of no stored document gets (404). Without a database the answer is 500
  whatever the id is.
\<close>

theorem malformed_id_400:
  assumes "parse_ObjectId item_id = None"
  shows "approve_item (Some d) item_id now = (Inl (HTTPException 400 ''Invalid ID format''), Some d) \<and>
         reject_item (Some d) item_id now = (Inl (HTTPException 400 ''Invalid ID format''), Some d) \<and>
         response_status 200 (fst (approve_item (Some d) item_id now)) = 400 \<and>
         response_status 200 (fst (reject_item (Some d) item_id now)) = 400 \<and>
         (parse_ObjectId other = Some j \<and> (\<forall>x\<in>set (approvalitem d). doc_id x \<noteq> Val j) \<longrightarrow>
            response_status 200 (fst (approve_item (Some d) other now)) \<noteq>
              response_status 200 (fst (approve_item (Some d) item_id now)) \<and>
            response_status 200 (fst (reject_item (Some d) other now)) \<noteq>
              response_status 200 (fst (reject_item (Some d) item_id now)))"
proof -
  have a: "approve_item (Some d) item_id now = (Inl (HTTPException 400 ''Invalid ID format''), Some d)"
    using assms by (simp add: approve_item_def oid_def)
  have r: "reject_item (Some d) item_id now = (Inl (HTTPException 400 ''Invalid ID format''), Some d)"
    using assms by (simp add: reject_item_def oid_def)
  show ?thesis
    using a r approve_item_no_match [of other j d now] reject_item_no_match [of other j d now]
    by (simp add: response_status_def)
qed

theorem malformed_id_400_witness:
  "parse_ObjectId ''not-an-id'' = None \<and>
   approve_item (Some db3) ''not-an-id'' 9 =
     (Inl (HTTPException 400 ''Invalid ID format''), Some db3) \<and>
   reject_item (Some db3) ''0123456789abcdef0123456g'' 9 =
     (Inl (HTTPException 400 ''Invalid ID format''), Some db3)"
  using malformed_id_400 [of "''not-an-id''" db3 9]
    malformed_id_400 [of "''0123456789abcdef0123456g''" db3 9]
  by (simp add: parse_ObjectId_def is_space_def is_hex_digit_def)

text \<open>
  Without a database an id that does not parse is answered with 500, not with 400.
\<close>

theorem malformed_id_counterexample:
  "parse_ObjectId ''not-an-id'' = None \<and>
   response_status 200 (fst (approve_item None ''not-an-id'' 9)) = 500 \<and>
   response_status 200 (fst (reject_item None ''not-an-id'' 9)) = 500"
  by (simp add: parse_ObjectId_def approve_item_def reject_item_def response_status_def)

lemma set_fields_frame:
  "doc_id (set_fields s now x) = doc_id x \<and> doc_title (set_fields s now x) = doc_title x \<and>
   doc_description (set_fields s now x) = doc_description x \<and>
   doc_requester (set_fields s now x) = doc_requester x \<and>
   doc_amount (set_fields s now x) = doc_amount x \<and>
   doc_created_at (set_fields s now x) = doc_created_at x \<and>
   doc_status (set_fields s now x) = Val s \<and> doc_updated_at (set_fields s now x) = Val now"
  by (simp add: set_fields_def)

lemma status_update_frame:
  assumes upd: "update_one i (set_fields s now) (approvalitem d) = (n, docs')" and n: "n \<noteq> 0"
  shows "\<exists>pre x post x'. approvalitem d = pre @ x # post \<and> docs' = pre @ x' # post \<and>
           (\<forall>y\<in>set pre. doc_id y \<noteq> Val i) \<and> doc_id x = Val i \<and>
           find_one docs' i = Some x' \<and>
           doc_id x' = doc_id x \<and> doc_title x' = doc_title x \<and>
           doc_description x' = doc_description x \<and> doc_requester x' = doc_requester x \<and>
           doc_amount x' = doc_amount x \<and> doc_created_at x' = doc_created_at x \<and>
           doc_status x' = Val s \<and> doc_updated_at x' = Val now"
proof -
  from update_one_match [OF upd n]
  obtain pre x post where ds: "approvalitem d = pre @ x # post"
    and ds': "docs' = pre @ set_fields s now x # post" and x: "doc_id x = Val i"
    and pre: "\<forall>y\<in>set pre. doc_id y \<noteq> Val i" by blast
  have "find_one docs' i = Some (set_fields s now x)"
    unfolding ds' using pre x by (intro find_one_split) (simp_all add: set_fields_frame)
  with ds ds' x pre show ?thesis
    using set_fields_frame [of s now x] by blast
qed

lemma status_update_result:
  assumes db: "db = Some d" and i: "parse_ObjectId item_id = Some i"
    and upd: "update_one i (set_fields s now) (approvalitem d) = (n, docs')" and n: "n \<noteq> 0"
    and r: "r = serialize_item (find_one docs' i)"
    and db': "db' = Some (d\<lparr>approvalitem := docs'\<rparr>)"
  shows "\<exists>d i pre x post x'. db = Some d \<and> parse_ObjectId item_id = Some i \<and>
         approvalitem d = pre @ x # post \<and>
         db' = Some (d\<lparr>approvalitem := pre @ x' # post\<rparr>) \<and>
         (\<forall>y\<in>set pre. doc_id y \<noteq> Val i) \<and> doc_id x = Val i \<and>
         r = serialize_item (Some x') \<and>
         doc_id x' = doc_id x \<and> doc_title x' = doc_title x \<and>
         doc_description x' = doc_description x \<and> doc_requester x' = doc_requester x \<and>
         doc_amount x' = doc_amount x \<and> doc_created_at x' = doc_created_at x \<and>
         doc_status x' = Val s \<and> doc_updated_at x' = Val now"
proof -
  from status_update_frame [OF upd n]
  obtain pre x post x' where f: "approvalitem d = pre @ x # post" "docs' = pre @ x' # post"
    "\<forall>y\<in>set pre. doc_id y \<noteq> Val i" "doc_id x = Val i" "find_one docs' i = Some x'"
    "doc_id x' = doc_id x" "doc_title x' = doc_title x"
    "doc_description x' = doc_description x" "doc_requester x' = doc_requester x"
    "doc_amount x' = doc_amount x" "doc_created_at x' = doc_created_at x"
    "doc_status x' = Val s" "doc_updated_at x' = Val now"
    by blast
  show ?thesis
    apply (rule exI [of _ d], rule exI [of _ i], rule exI [of _ pre])
    apply (rule exI [of _ x], rule exI [of _ post], rule exI [of _ x'])
    using db i r db' f by simp
qed

text \<open>
  Claim C6. When approve (or reject) succeeds, the collection before the request is
  \<open>pre @ x # post\<close>, where \<open>x\<close> is the first document with the parsed identifier, and the
  collection after it is \<open>pre @ x' # post\<close>: every other document is as it was, and \<open>x'\<close>
  has the \<open>_id\<close>, \<open>title\<close>, \<open>description\<close>, \<open>requester\<close>, \<open>amount\<close> and
  \<open>created_at\<close> of \<open>x\<close>, the new status and \<open>updated_at = now\<close>. Nothing else of the
  database changes, and the response is the serialisation of \<open>x'\<close>.
\<close>

theorem approve_reject_frame:
  "(approve_item db item_id now = (Inr r, db') \<longrightarrow>
      (\<exists>d i pre x post x'. db = Some d \<and> parse_ObjectId item_id = Some i \<and>
         approvalitem d = pre @ x # post \<and>
         db' = Some (d\<lparr>approvalitem := pre @ x' # post\<rparr>) \<and>
         (\<forall>y\<in>set pre. doc_id y \<noteq> Val i) \<and> doc_id x = Val i \<and>
         r = serialize_item (Some x') \<and>
         doc_id x' = doc_id x \<and> doc_title x' = doc_title x \<and>
         doc_description x' = doc_description x \<and> doc_requester x' = doc_requester x \<and>
         doc_amount x' = doc_amount x \<and> doc_created_at x' = doc_created_at x \<and>
         doc_status x' = Val ''approved'' \<and> doc_updated_at x' = Val now)) \<and>
   (reject_item db item_id now = (Inr r, db') \<longrightarrow>
      (\<exists>d i pre x post x'. db = Some d \<and> parse_ObjectId item_id = Some i \<and>
         approvalitem d = pre @ x # post \<and>
         db' = Some (d\<lparr>approvalitem := pre @ x' # post\<rparr>) \<and>
         (\<forall>y\<in>set pre. doc_id y \<noteq> Val i) \<and> doc_id x = Val i \<and>
         r = serialize_item (Some x') \<and>
         doc_id x' = doc_id x \<and> doc_title x' = doc_title x \<and>
         doc_description x' = doc_description x \<and> doc_requester x' = doc_requester x \<and>
         doc_amount x' = doc_amount x \<and> doc_created_at x' = doc_created_at x \<and>
         doc_status x' = Val ''rejected'' \<and> doc_updated_at x' = Val now))"
proof (intro conjI impI)
  assume a: "approve_item db item_id now = (Inr r, db')"
  then obtain d where db: "db = Some d"
    by (cases db) (auto simp: approve_item_def)
  from a db obtain i where i: "parse_ObjectId item_id = Some i"
    by (cases "parse_ObjectId item_id") (auto simp: approve_item_def oid_def)
  obtain n docs' where upd: "update_one i (set_fields ''approved'' now) (approvalitem d) = (n, docs')"
    by (cases "update_one i (set_fields ''approved'' now) (approvalitem d)")
  from a db i upd have n: "n \<noteq> 0" and r: "r = serialize_item (find_one docs' i)"
    and db': "db' = Some (d\<lparr>approvalitem := docs'\<rparr>)"
    by (auto simp: approve_item_def oid_def Let_def split: if_splits)
  show "\<exists>d i pre x post x'. db = Some d \<and> parse_ObjectId item_id = Some i \<and>
         approvalitem d = pre @ x # post \<and>
         db' = Some (d\<lparr>approvalitem := pre @ x' # post\<rparr>) \<and>
         (\<forall>y\<in>set pre. doc_id y \<noteq> Val i) \<and> doc_id x = Val i \<and>
         r = serialize_item (Some x') \<and>
         doc_id x' = doc_id x \<and> doc_title x' = doc_title x \<and>
         doc_description x' = doc_description x \<and> doc_requester x' = doc_requester x \<and>
         doc_amount x' = doc_amount x \<and> doc_created_at x' = doc_created_at x \<and>
         doc_status x' = Val ''approved'' \<and> doc_updated_at x' = Val now"
    by (rule status_update_result [OF db i upd n r db'])
next
  assume a: "reject_item db item_id now = (Inr r, db')"
  then obtain d where db: "db = Some d"
    by (cases db) (auto simp: reject_item_def)
  from a db obtain i where i: "parse_ObjectId item_id = Some i"
    by (cases "parse_ObjectId item_id") (auto simp: reject_item_def oid_def)
  obtain n docs' where upd: "update_one i (set_fields ''rejected'' now) (approvalitem d) = (n, docs')"
    by (cases "update_one i (set_fields ''rejected'' now) (approvalitem d)")
  from a db i upd have n: "n \<noteq> 0" and r: "r = serialize_item (find_one docs' i)"
    and db': "db' = Some (d\<lparr>approvalitem := docs'\<rparr>)"
    by (auto simp: reject_item_def oid_def Let_def split: if_splits)
  show "\<exists>d i pre x post x'. db = Some d \<and> parse_ObjectId item_id = Some i \<and>
         approvalitem d = pre @ x # post \<and>
         db' = Some (d\<lparr>approvalitem := pre @ x' # post\<rparr>) \<and>
         (\<forall>y\<in>set pre. doc_id y \<noteq> Val i) \<and> doc_id x = Val i \<and>
         r = serialize_item (Some x') \<and>
         doc_id x' = doc_id x \<and> doc_title x' = doc_title x \<and>
         doc_description x' = doc_description x \<and> doc_requester x' = doc_requester x \<and>
         doc_amount x' = doc_amount x \<and> doc_created_at x' = doc_created_at x \<and>
         doc_status x' = Val ''rejected'' \<and> doc_updated_at x' = Val now"
    by (rule status_update_result [OF db i upd n r db'])
qed

theorem approve_reject_frame_witness:
  "approve_item (Some db3) ''BBBBbbbbbbbbbbbbbbbbbbbb'' 9 =
     (Inr (Some (item_wire ''bbbbbbbbbbbbbbbbbbbbbbbb'' ''Lamp'' ''approved'' 3 9)),
      Some (db3\<lparr>approvalitem := [item_doc id1 ''Desk'' ''pending'' 1 1,
          item_doc id2 ''Chair'' ''approved'' 2 4, item_doc id3 ''Lamp'' ''approved'' 3 9]\<rparr>)) \<and>
   reject_item (Some db3) ''aaaaaaaaaaaaaaaaaaaaaaaa'' 9 =
     (Inr (Some (item_wire ''aaaaaaaaaaaaaaaaaaaaaaaa'' ''Chair'' ''rejected'' 2 9)),
      Some (db3\<lparr>approvalitem := [item_doc id1 ''Desk'' ''pending'' 1 1,
          item_doc id2 ''Chair'' ''rejected'' 2 9, item_doc id3 ''Lamp'' ''pending'' 3 3]\<rparr>))"
  using approve_reject_frame [of "Some db3" "''BBBBbbbbbbbbbbbbbbbbbbbb''" 9
      "Some (item_wire ''bbbbbbbbbbbbbbbbbbbbbbbb'' ''Lamp'' ''approved'' 3 9)"
      "Some (db3\<lparr>approvalitem := [item_doc id1 ''Desk'' ''pending'' 1 1,
          item_doc id2 ''Chair'' ''approved'' 2 4, item_doc id3 ''Lamp'' ''approved'' 3 9]\<rparr>)"]
    approve_reject_frame [of "Some db3" "''aaaaaaaaaaaaaaaaaaaaaaaa''" 9
      "Some (item_wire ''aaaaaaaaaaaaaaaaaaaaaaaa'' ''Chair'' ''rejected'' 2 9)"
      "Some (db3\<lparr>approvalitem := [item_doc id1 ''Desk'' ''pending'' 1 1,
          item_doc id2 ''Chair'' ''rejected'' 2 9, item_doc id3 ''Lamp'' ''pending'' 3 3]\<rparr>)"]
  by (simp add: id1_def id2_def id3_def item_doc_def item_wire_def db3_def
      parse_ObjectId_def is_space_def is_hex_digit_def lower_hex_def oid_def
      serialize_item_def empty_doc_def dict_get_def dict_get_default_def py_str_def to_json_def
      find_one_def approve_item_def reject_item_def set_fields_def)

text \<open>
  Claim C10. Approve and reject look at the database first: without one they answer
  500 \<open>Database not available\<close> for every id string, well-formed or not, so no id is
  answered with 400 then.
\<close>

theorem store_check_first:
  "approve_item None item_id now = (Inl (HTTPException 500 ''Database not available''), None) \<and>
   reject_item None item_id now = (Inl (HTTPException 500 ''Database not available''), None) \<and>
   response_status 200 (fst (approve_item None item_id now)) = 500 \<and>
   response_status 200 (fst (reject_item None item_id now)) = 500"
  by (simp add: approve_item_def reject_item_def response_status_def)

section \<open>Seeding\<close>

lemma seed_loop_samples:
  assumes "approvalitem d = []"
    and "distinct [fst (gen 0), fst (gen 1), fst (gen 2), fst (gen 3)]"
  shows "seed_loop (Some d) gen 0 samples =
           (None, Some (d\<lparr>approvalitem :=
              map (\<lambda>k. (samples ! k)\<lparr>doc_id := Val (fst (gen k)),
                     doc_created_at := Val (snd (gen k)), doc_updated_at := Val (snd (gen k))\<rparr>)
                [0, 1, 2, 3]\<rparr>))"
  using assms
  by (auto simp add: samples_def create_document_def numeral_2_eq_2 numeral_3_eq_3)

text \<open>
  Claim C7. On an empty collection, the store handing out four distinct identifiers, seed
  inserts the four sample records, in order, each with its identifier and timestamps, and
  reports \<open>inserted = 4\<close>; a second seed right after it reports \<open>inserted = 0\<close> and
  changes nothing. On any non-empty collection seed reports \<open>inserted = 0\<close> and changes
  nothing.
\<close>

theorem seed_idempotent:
  "(approvalitem d = [] \<and> distinct [fst (gen 0), fst (gen 1), fst (gen 2), fst (gen 3)] \<longrightarrow>
      (\<exists>d'. seed_data (Some d) gen = (Inr [(''inserted'', JInt 4)], Some d') \<and>
         d' = d\<lparr>approvalitem :=
              map (\<lambda>k. (samples ! k)\<lparr>doc_id := Val (fst (gen k)),
                     doc_created_at := Val (snd (gen k)), doc_updated_at := Val (snd (gen k))\<rparr>)
                [0, 1, 2, 3]\<rparr> \<and>
         length (approvalitem d') = 4 \<and>
         seed_data (Some d') gen' =
           (Inr [(''inserted'', JInt 0), (''message'', JStr ''Data already present'')], Some d'))) \<and>
   (approvalitem d \<noteq> [] \<longrightarrow>
      seed_data (Some d) gen =
        (Inr [(''inserted'', JInt 0), (''message'', JStr ''Data already present'')], Some d))"
proof (intro conjI impI)
  assume a: "approvalitem d = [] \<and> distinct [fst (gen 0), fst (gen 1), fst (gen 2), fst (gen 3)]"
  let ?d' = "d\<lparr>approvalitem :=
              map (\<lambda>k. (samples ! k)\<lparr>doc_id := Val (fst (gen k)),
                     doc_created_at := Val (snd (gen k)), doc_updated_at := Val (snd (gen k))\<rparr>)
                [0, 1, 2, 3]\<rparr>"
  from a have l: "seed_loop (Some d) gen 0 samples = (None, Some ?d')"
    by (intro seed_loop_samples) simp_all
  have n: "length samples = 4" by (simp add: samples_def)
  from a l n have s1: "seed_data (Some d) gen = (Inr [(''inserted'', JInt 4)], Some ?d')"
    by (simp add: seed_data_def count_documents_def)
  have s2: "seed_data (Some ?d') gen' =
           (Inr [(''inserted'', JInt 0), (''message'', JStr ''Data already present'')], Some ?d')"
    by (simp add: seed_data_def count_documents_def)
  show "\<exists>d'. seed_data (Some d) gen = (Inr [(''inserted'', JInt 4)], Some d') \<and>
         d' = ?d' \<and> length (approvalitem d') = 4 \<and>
         seed_data (Some d') gen' =
           (Inr [(''inserted'', JInt 0), (''message'', JStr ''Data already present'')], Some d')"
    using s1 s2 by simp
next
  assume "approvalitem d \<noteq> []"
  then show "seed_data (Some d) gen =
        (Inr [(''inserted'', JInt 0), (''message'', JStr ''Data already present'')], Some d)"
    by (simp add: seed_data_def count_documents_def)
qed

theorem seed_idempotent_witness:
  "seed_data (Some db0) gen0 = (Inr [(''inserted'', JInt 4)],
      Some (db0\<lparr>approvalitem :=
        map (\<lambda>k. (samples ! k)\<lparr>doc_id := Val (fst (gen0 k)),
               doc_created_at := Val (snd (gen0 k)), doc_updated_at := Val (snd (gen0 k))\<rparr>)
          [0, 1, 2, 3]\<rparr>)) \<and>
   seed_data (Some db3) gen0 =
     (Inr [(''inserted'', JInt 0), (''message'', JStr ''Data already present'')], Some db3)"
  using seed_idempotent [of db0 gen0 gen0] seed_idempotent [of db3 gen0]
  by (simp add: db0_def db3_def gen0_def)

section \<open>Diagnostics\<close>

text \<open>
  Claim C9. The diagnostics route always answers 200 with a body, whatever the state of
  the store: when listing the collections raises, the text of the exception (its first 50
  characters) goes into the field \<open>database\<close> and no collection is listed; otherwise the
  first ten names are listed; so at most ten names are ever listed.
\<close>

theorem diagnostics_always_200:
  "\<exists>r. get_test db env_url = Inr r \<and> response_status 200 (get_test db env_url) = 200 \<and>
       length (collections r) \<le> 10 \<and>
       (\<forall>d e. db = Some d \<and> list_collection_names d = Inl e \<longrightarrow>
          database r = warning_sign @ ascii '' Connected but Error: '' @ take 50 e \<and> collections r = []) \<and>
       (\<forall>d cs. db = Some d \<and> list_collection_names d = Inr cs \<longrightarrow> collections r = take 10 cs) \<and>
       (db = None \<longrightarrow> database r = warning_sign @ ascii '' Available but not initialized'' \<and> collections r = [])"
  by (cases db) (auto simp: get_test_def test_database_def response_status_def Let_def split: sum.splits)

theorem diagnostics_always_200_witness:
  "get_test (Some (db0\<lparr>list_collection_names := Inl (replicate 60 0x274C)\<rparr>)) None =
     Inr \<lparr>backend = check_mark @ ascii '' Running'',
          database = warning_sign @ ascii '' Connected but Error: '' @ replicate 50 0x274C,
          database_url = Some (cross_mark @ ascii '' Not Set''), database_name = Some ''approvals'',
          connection_status = ''Connected'', collections = []\<rparr> \<and>
   collections (test_database (Some (db0\<lparr>list_collection_names :=
       Inr [''a'', ''b'', ''c'', ''d'', ''e'', ''f'', ''g'', ''h'', ''i'', ''j'', ''k'', ''l'']\<rparr>)) (Some ''mongodb://x'')) =
     [''a'', ''b'', ''c'', ''d'', ''e'', ''f'', ''g'', ''h'', ''i'', ''j'']"
  using diagnostics_always_200 [of "Some (db0\<lparr>list_collection_names := Inl (replicate 60 0x274C)\<rparr>)" None]
  by (simp add: db0_def get_test_def test_database_def)

end
